theory Spec2Isabelle
  imports Main
begin

section \<open>The Rectangle class of CustomClassesInPython.py\<close>

text \<open>
  The source file defines one class, \<^verbatim>\<open>Rectangle\<close>, with a constructor storing two
  attributes and a generator method \<^verbatim>\<open>__iter__\<close>, and a demonstration block run
  under \<^verbatim>\<open>if __name__ == "__main__"\<close>.

  Python objects are mutable and shared by reference, and a generator is itself an
  object that is resumed by \<^verbatim>\<open>next\<close>.  The embedding therefore passes an explicit
  program state: a store of Rectangle instances, a store of generator objects, an
  allocation counter and the text written to standard output.  Every operation takes
  the state and returns its result with the new state; a raised exception is the
  \<open>Inl\<close> branch of the result.
\<close>

subsection \<open>Data\<close>

type_synonym addr = nat

text \<open>
  The exceptions that the modelled operations can raise. \<open>AttributeError\<close> stands for
  the failure of reading an attribute through a reference that holds no instance.
\<close>

datatype pyexc = TypeError | StopIteration | AttributeError

text \<open>
  An instance of \<^verbatim>\<open>Rectangle\<close>. The annotations \<^verbatim>\<open>length: int\<close> and \<^verbatim>\<open>width: int\<close> are
  not enforced by Python, so the type \<open>'v\<close> of stored values is left open. The field
  of the attribute \<^verbatim>\<open>length\<close> is called \<open>length_attr\<close>, since \<open>length\<close> is the length
  of a list in HOL.
\<close>

record 'v Rectangle =
  length_attr :: 'v
  width :: 'v

text \<open>
  A dictionary literal with string keys, as an association list in insertion order
  (the order in which \<^verbatim>\<open>print\<close> shows the entries).
\<close>

type_synonym 'v pydict = "(string \<times> 'v) list"

text \<open>
  The points at which the body of \<^verbatim>\<open>__iter__\<close> can be suspended: before its first
  statement, at its first \<^verbatim>\<open>yield\<close>, at its second \<^verbatim>\<open>yield\<close>, and after it has
  returned or raised.
\<close>

datatype gen_pc = Created | At_yield_length | At_yield_width | Finished

text \<open>A generator object made by \<^verbatim>\<open>__iter__\<close>: the reference bound to \<^verbatim>\<open>self\<close> and
  the suspension point.\<close>

record generator =
  self :: addr
  pc :: gen_pc

record 'v pystate =
  rects :: "addr \<rightharpoonup> 'v Rectangle"
  gens :: "addr \<rightharpoonup> generator"
  next_addr :: addr
  stdout :: string

definition init_state :: "'v pystate" where
  "init_state = \<lparr>rects = Map.empty, gens = Map.empty, next_addr = 0, stdout = []\<rparr>"

subsection \<open>Construction\<close>

text \<open>
  \<^verbatim>\<open>def __init__(self, length: int, width: int)\<close> has two required parameters after
  \<^verbatim>\<open>self\<close> and no defaults. A call \<^verbatim>\<open>Rectangle(*args, **kwargs)\<close> binds the positional
  arguments to the parameters from the left and the keyword arguments by name.
  \<open>bind_param i name args kwargs\<close> is the value bound to parameter number \<open>i\<close>
  called \<open>name\<close>: a parameter given both by position and by keyword, or given by
  neither, raises \<^verbatim>\<open>TypeError\<close>.
\<close>

definition bind_param :: "nat \<Rightarrow> string \<Rightarrow> 'v list \<Rightarrow> (string \<times> 'v) list \<Rightarrow> pyexc + 'v" where
  "bind_param i name args kwargs =
     (if i < length args then
        (if name \<in> set (map fst kwargs) then Inl TypeError else Inr (args ! i))
      else
        (case map_of kwargs name of None \<Rightarrow> Inl TypeError | Some v \<Rightarrow> Inr v))"

text \<open>
  The binding of a whole call: too many positional arguments, a keyword that names no
  parameter and a keyword given twice raise \<^verbatim>\<open>TypeError\<close> as well. The result is the
  pair of values bound to \<^verbatim>\<open>length\<close> and \<^verbatim>\<open>width\<close>.
\<close>

definition bind_args :: "'v list \<Rightarrow> (string \<times> 'v) list \<Rightarrow> pyexc + ('v \<times> 'v)" where
  "bind_args args kwargs =
     (if 2 < length args then Inl TypeError
      else if \<not> distinct (map fst kwargs) then Inl TypeError
      else if filter (\<lambda>k. k \<noteq> ''length'' \<and> k \<noteq> ''width'') (map fst kwargs) \<noteq> [] then Inl TypeError
      else
        (case bind_param 0 ''length'' args kwargs of
           Inl e \<Rightarrow> Inl e
         | Inr l \<Rightarrow>
             (case bind_param 1 ''width'' args kwargs of
                Inl e \<Rightarrow> Inl e
              | Inr w \<Rightarrow> Inr (l, w))))"

text \<open>
  The body of \<^verbatim>\<open>__init__\<close>: \<^verbatim>\<open>self.length = length; self.width = width\<close>, on the
  instance at the reference \<open>a\<close>.
\<close>

definition Rectangle_init :: "addr \<Rightarrow> 'v \<Rightarrow> 'v \<Rightarrow> 'v pystate \<Rightarrow> 'v pystate" where
  "Rectangle_init a l w s = s\<lparr>rects := (rects s)(a \<mapsto> \<lparr>length_attr = l, width = w\<rparr>)\<rparr>"

text \<open>
  The call \<^verbatim>\<open>Rectangle(*args, **kwargs)\<close>. When the binding fails the exception reaches
  the caller and no reference is returned; the state is the one before the call.
  Otherwise a fresh reference is taken, \<^verbatim>\<open>__init__\<close> runs on it and the reference is
  the result.
\<close>

definition Rectangle_call ::
  "'v list \<Rightarrow> (string \<times> 'v) list \<Rightarrow> 'v pystate \<Rightarrow> (pyexc + addr) \<times> 'v pystate" where
  "Rectangle_call args kwargs s =
     (case bind_args args kwargs of
        Inl e \<Rightarrow> (Inl e, s)
      | Inr (l, w) \<Rightarrow>
          (let a = next_addr s
           in (Inr a, Rectangle_init a l w (s\<lparr>next_addr := Suc a\<rparr>))))"

text \<open>Assignment to an attribute from outside the class, \<^verbatim>\<open>rect.length = v\<close> and
  \<^verbatim>\<open>rect.width = v\<close>; the class does not prevent it.\<close>

definition set_length :: "addr \<Rightarrow> 'v \<Rightarrow> 'v pystate \<Rightarrow> (pyexc + unit) \<times> 'v pystate" where
  "set_length a v s =
     (case rects s a of
        None \<Rightarrow> (Inl AttributeError, s)
      | Some r \<Rightarrow> (Inr (), s\<lparr>rects := (rects s)(a \<mapsto> r\<lparr>length_attr := v\<rparr>)\<rparr>))"

definition set_width :: "addr \<Rightarrow> 'v \<Rightarrow> 'v pystate \<Rightarrow> (pyexc + unit) \<times> 'v pystate" where
  "set_width a v s =
     (case rects s a of
        None \<Rightarrow> (Inl AttributeError, s)
      | Some r \<Rightarrow> (Inr (), s\<lparr>rects := (rects s)(a \<mapsto> r\<lparr>width := v\<rparr>)\<rparr>))"

subsection \<open>Iteration\<close>

text \<open>
  \<^verbatim>\<open>__iter__\<close> contains \<^verbatim>\<open>yield\<close>, so calling it runs none of its body: it makes a
  generator object bound to \<^verbatim>\<open>self\<close>, suspended before the first statement.
\<close>

definition Rectangle_iter :: "addr \<Rightarrow> 'v pystate \<Rightarrow> addr \<times> 'v pystate" where
  "Rectangle_iter a s =
     (let g = next_addr s
      in (g, s\<lparr>gens := (gens s)(g \<mapsto> \<lparr>self = a, pc = Created\<rparr>), next_addr := Suc g\<rparr>))"

text \<open>\<^verbatim>\<open>iter(rect)\<close>: the method \<^verbatim>\<open>__iter__\<close> of the instance at the reference; a
  reference that holds no Rectangle is not iterable.\<close>

definition py_iter :: "addr \<Rightarrow> 'v pystate \<Rightarrow> (pyexc + addr) \<times> 'v pystate" where
  "py_iter a s =
     (case rects s a of
        None \<Rightarrow> (Inl TypeError, s)
      | Some r \<Rightarrow> (case Rectangle_iter a s of (g, s') \<Rightarrow> (Inr g, s')))"

definition set_pc :: "addr \<Rightarrow> generator \<Rightarrow> gen_pc \<Rightarrow> 'v pystate \<Rightarrow> 'v pystate" where
  "set_pc it g p s = s\<lparr>gens := (gens s)(it \<mapsto> g\<lparr>pc := p\<rparr>)\<rparr>"

text \<open>
  \<^verbatim>\<open>next(it)\<close> resumes the body of \<^verbatim>\<open>__iter__\<close> where it was suspended:
  \<^verbatim>\<open>yield {'length': self.length}\<close> from the start,
  \<^verbatim>\<open>yield {'width': self.width}\<close> from the first \<^verbatim>\<open>yield\<close>, and the end of the body
  (which raises \<^verbatim>\<open>StopIteration\<close>) from the second. The attribute is read from the
  store at the moment of the resumption. A finished generator raises
  \<^verbatim>\<open>StopIteration\<close> again, and a reference that holds no generator is not an iterator.
\<close>

definition py_next :: "addr \<Rightarrow> 'v pystate \<Rightarrow> (pyexc + 'v pydict) \<times> 'v pystate" where
  "py_next it s =
     (case gens s it of
        None \<Rightarrow> (Inl TypeError, s)
      | Some g \<Rightarrow>
          (case pc g of
             Created \<Rightarrow>
               (case rects s (self g) of
                  None \<Rightarrow> (Inl AttributeError, set_pc it g Finished s)
                | Some r \<Rightarrow> (Inr [(''length'', length_attr r)], set_pc it g At_yield_length s))
           | At_yield_length \<Rightarrow>
               (case rects s (self g) of
                  None \<Rightarrow> (Inl AttributeError, set_pc it g Finished s)
                | Some r \<Rightarrow> (Inr [(''width'', width r)], set_pc it g At_yield_width s))
           | At_yield_width \<Rightarrow> (Inl StopIteration, set_pc it g Finished s)
           | Finished \<Rightarrow> (Inl StopIteration, s)))"

text \<open>The number of resumptions a generator can still make before it is finished.\<close>

fun pc_rank :: "gen_pc \<Rightarrow> nat" where
  "pc_rank Created = 3"
| "pc_rank At_yield_length = 2"
| "pc_rank At_yield_width = 1"
| "pc_rank Finished = 0"

definition gen_rank :: "addr \<Rightarrow> 'v pystate \<Rightarrow> nat" where
  "gen_rank it s = (case gens s it of None \<Rightarrow> 0 | Some g \<Rightarrow> pc_rank (pc g))"

lemma py_next_rank:
  "py_next it s = (Inr x, s') \<Longrightarrow> gen_rank it s' < gen_rank it s"
  by (auto simp: py_next_def gen_rank_def set_pc_def split: option.splits gen_pc.splits)

text \<open>
  Consuming an iterator to its end, as \<^verbatim>\<open>list(it)\<close> does: \<^verbatim>\<open>next\<close> is called until
  it raises \<^verbatim>\<open>StopIteration\<close>, which ends the loop; any other exception propagates.
\<close>

function list_iter :: "addr \<Rightarrow> 'v pystate \<Rightarrow> (pyexc + 'v pydict list) \<times> 'v pystate" where
  "list_iter it s =
     (case py_next it s of
        (Inl e, s') \<Rightarrow> if e = StopIteration then (Inr [], s') else (Inl e, s')
      | (Inr x, s') \<Rightarrow>
          (case list_iter it s' of
             (Inl e, s'') \<Rightarrow> (Inl e, s'')
           | (Inr xs, s'') \<Rightarrow> (Inr (x # xs), s'')))"
  by pat_completeness auto
termination
  by (relation "measure (\<lambda>(it, s). gen_rank it s)") (auto intro: py_next_rank [OF sym])

text \<open>\<^verbatim>\<open>list(rect)\<close>: request an iterator, then consume it.\<close>

definition py_list :: "addr \<Rightarrow> 'v pystate \<Rightarrow> (pyexc + 'v pydict list) \<times> 'v pystate" where
  "py_list a s =
     (case py_iter a s of
        (Inl e, s') \<Rightarrow> (Inl e, s')
      | (Inr it, s') \<Rightarrow> list_iter it s')"

subsection \<open>The demonstration block\<close>

text \<open>
  \<^verbatim>\<open>print(attribute)\<close> writes \<^verbatim>\<open>str(attribute)\<close> and a newline. For a dictionary that
  is its \<^verbatim>\<open>repr\<close>: the entries as \<^verbatim>\<open>key: value\<close>, separated by a comma and a space,
  between braces. The keys are shown in single quotes (the keys of this program
  contain no character that \<^verbatim>\<open>repr\<close> would escape), the integers in decimal.
\<close>

definition digit_char :: "nat \<Rightarrow> char" where
  "digit_char d = char_of (48 + d)"

function repr_nat :: "nat \<Rightarrow> string" where
  "repr_nat n = (if n < 10 then [digit_char n] else repr_nat (n div 10) @ [digit_char (n mod 10)])"
  by pat_completeness auto
termination
  by (relation "measure (\<lambda>n. n)") auto

definition repr_int :: "int \<Rightarrow> string" where
  "repr_int i = (if i < 0 then CHR ''-'' # repr_nat (nat (- i)) else repr_nat (nat i))"

definition repr_str :: "string \<Rightarrow> string" where
  "repr_str k = [CHR 0x27] @ k @ [CHR 0x27]"

fun repr_items :: "int pydict \<Rightarrow> string" where
  "repr_items [] = []"
| "repr_items [(k, v)] = repr_str k @ '': '' @ repr_int v"
| "repr_items ((k, v) # kvs) = repr_str k @ '': '' @ repr_int v @ '', '' @ repr_items kvs"

definition repr_dict :: "int pydict \<Rightarrow> string" where
  "repr_dict d = ''{'' @ repr_items d @ ''}''"

definition py_print :: "string \<Rightarrow> 'v pystate \<Rightarrow> 'v pystate" where
  "py_print txt s = s\<lparr>stdout := stdout s @ txt @ [CHR 0x0A]\<rparr>"

lemma py_print_rank: "gen_rank it (py_print txt s) = gen_rank it s"
  by (simp add: py_print_def gen_rank_def)

text \<open>
  \<^verbatim>\<open>for attribute in rect: print(attribute)\<close>, from the iterator on: each element is
  printed as soon as it is produced, and \<^verbatim>\<open>StopIteration\<close> ends the loop.
\<close>

function main_loop :: "addr \<Rightarrow> int pystate \<Rightarrow> (pyexc + unit) \<times> int pystate" where
  "main_loop it s =
     (case py_next it s of
        (Inl e, s') \<Rightarrow> if e = StopIteration then (Inr (), s') else (Inl e, s')
      | (Inr attribute, s') \<Rightarrow> main_loop it (py_print (repr_dict attribute) s'))"
  by pat_completeness auto
termination
  by (relation "measure (\<lambda>(it, s). gen_rank it s)")
     (auto simp: py_print_rank intro: py_next_rank [OF sym])

text \<open>
  The statements of the module, run with \<^verbatim>\<open>__name__\<close> bound to \<open>name\<close>. The class
  statement changes nothing in the modelled state. The demonstration block runs only
  when the file is the program being run.
\<close>

definition module_body :: "string \<Rightarrow> int pystate \<Rightarrow> (pyexc + unit) \<times> int pystate" where
  "module_body name s =
     (if name = ''__main__'' then
        (case Rectangle_call [] [(''length'', 10), (''width'', 5)] s of
           (Inl e, s1) \<Rightarrow> (Inl e, s1)
         | (Inr rect, s1) \<Rightarrow>
             (case py_iter rect s1 of
                (Inl e, s2) \<Rightarrow> (Inl e, s2)
              | (Inr it, s2) \<Rightarrow> main_loop it s2))
      else (Inr (), s))"

text \<open>The exit code of the interpreter: 0 when the module ran to its end, 1 when an
  exception was left uncaught.\<close>

definition exit_code :: "pyexc + unit \<Rightarrow> int" where
  "exit_code r = (case r of Inl e \<Rightarrow> 1 | Inr u \<Rightarrow> 0)"

text \<open>Running the file as a program: the exit code and the text on standard output.\<close>

definition run_program :: "int \<times> string" where
  "run_program = (case module_body ''__main__'' init_state of (r, s) \<Rightarrow> (exit_code r, stdout s))"

subsection \<open>Auxiliary notions for the statements\<close>

text \<open>A call supplies parameter number \<open>i\<close> called \<open>name\<close> when it gives it by
  position or by keyword.\<close>

definition supplied :: "nat \<Rightarrow> string \<Rightarrow> 'v list \<Rightarrow> (string \<times> 'v) list \<Rightarrow> bool" where
  "supplied i name args kwargs = (i < length args \<or> name \<in> set (map fst kwargs))"

text \<open>The state after \<^verbatim>\<open>Rectangle(l, w)\<close> in a fresh program, and the state after a
  second construction \<^verbatim>\<open>Rectangle(width=w, length=l)\<close> of an equal instance.\<close>

definition state_with :: "'v \<Rightarrow> 'v \<Rightarrow> 'v pystate" where
  "state_with l w = snd (Rectangle_call [l, w] [] init_state)"

definition two_rects :: "'v \<Rightarrow> 'v \<Rightarrow> 'v pystate" where
  "two_rects l w = snd (Rectangle_call [] [(''width'', w), (''length'', l)] (state_with l w))"

section \<open>Properties\<close>

subsection \<open>Evaluation lemmas\<close>

lemma py_iter_inst:
  "rects s a = Some r \<Longrightarrow>
   py_iter a s =
     (Inr (next_addr s),
      s\<lparr>gens := (gens s)(next_addr s \<mapsto> \<lparr>self = a, pc = Created\<rparr>), next_addr := Suc (next_addr s)\<rparr>)"
  by (simp add: py_iter_def Rectangle_iter_def Let_def)

lemma py_next_Created:
  "gens s it = Some g \<Longrightarrow> pc g = Created \<Longrightarrow> rects s (self g) = Some r \<Longrightarrow>
   py_next it s = (Inr [(''length'', length_attr r)], set_pc it g At_yield_length s)"
  by (simp add: py_next_def)

lemma py_next_At_yield_length:
  "gens s it = Some g \<Longrightarrow> pc g = At_yield_length \<Longrightarrow> rects s (self g) = Some r \<Longrightarrow>
   py_next it s = (Inr [(''width'', width r)], set_pc it g At_yield_width s)"
  by (simp add: py_next_def)

lemma py_next_At_yield_width:
  "gens s it = Some g \<Longrightarrow> pc g = At_yield_width \<Longrightarrow>
   py_next it s = (Inl StopIteration, set_pc it g Finished s)"
  by (simp add: py_next_def)

lemma py_next_Finished:
  "gens s it = Some g \<Longrightarrow> pc g = Finished \<Longrightarrow> py_next it s = (Inl StopIteration, s)"
  by (simp add: py_next_def)

lemma set_pc_simps [simp]:
  "gens (set_pc it g p s) = (gens s)(it \<mapsto> g\<lparr>pc := p\<rparr>)"
  "rects (set_pc it g p s) = rects s"
  "next_addr (set_pc it g p s) = next_addr s"
  "stdout (set_pc it g p s) = stdout s"
  by (simp_all add: set_pc_def)

lemma list_iter_At_yield_width:
  assumes "gens s it = Some g" and "pc g = At_yield_width"
  shows "list_iter it s = (Inr [], set_pc it g Finished s)"
  by (subst list_iter.simps) (simp add: py_next_At_yield_width [OF assms])

lemma list_iter_At_yield_length:
  assumes "gens s it = Some g" and "pc g = At_yield_length" and "rects s (self g) = Some r"
  shows "list_iter it s = (Inr [[(''width'', width r)]], set_pc it g Finished s)"
proof -
  let ?g = "g\<lparr>pc := At_yield_width\<rparr>" and ?s = "set_pc it g At_yield_width s"
  have "list_iter it ?s = (Inr [], set_pc it ?g Finished ?s)"
    by (rule list_iter_At_yield_width) simp_all
  then show ?thesis
    by (subst list_iter.simps) (simp add: py_next_At_yield_length [OF assms] set_pc_def)
qed

lemma list_iter_Created:
  assumes "gens s it = Some g" and "pc g = Created" and "rects s (self g) = Some r"
  shows "list_iter it s =
           (Inr [[(''length'', length_attr r)], [(''width'', width r)]], set_pc it g Finished s)"
proof -
  let ?g = "g\<lparr>pc := At_yield_length\<rparr>" and ?s = "set_pc it g At_yield_length s"
  have "list_iter it ?s = (Inr [[(''width'', width r)]], set_pc it ?g Finished ?s)"
    by (rule list_iter_At_yield_length) (simp_all add: assms)
  then show ?thesis
    by (subst list_iter.simps) (simp add: py_next_Created [OF assms] set_pc_def)
qed

lemma py_list_inst:
  assumes "rects s a = Some r"
  shows "py_list a s =
           (Inr [[(''length'', length_attr r)], [(''width'', width r)]],
            s\<lparr>gens := (gens s)(next_addr s \<mapsto> \<lparr>self = a, pc = Finished\<rparr>),
              next_addr := Suc (next_addr s)\<rparr>)"
proof -
  let ?g = "\<lparr>self = a, pc = Created\<rparr>"
  let ?s = "s\<lparr>gens := (gens s)(next_addr s \<mapsto> ?g), next_addr := Suc (next_addr s)\<rparr>"
  have "list_iter (next_addr s) ?s =
          (Inr [[(''length'', length_attr r)], [(''width'', width r)]],
           set_pc (next_addr s) ?g Finished ?s)"
    by (rule list_iter_Created) (simp_all add: assms)
  then show ?thesis
    by (simp add: py_list_def py_iter_inst [OF assms] set_pc_def)
qed

lemma Rectangle_call_keywords:
  "Rectangle_call [] [(''length'', l), (''width'', w)] s =
     (Inr (next_addr s),
      s\<lparr>next_addr := Suc (next_addr s),
        rects := (rects s)(next_addr s \<mapsto> \<lparr>length_attr = l, width = w\<rparr>)\<rparr>)"
  by (simp add: Rectangle_call_def bind_args_def bind_param_def Rectangle_init_def Let_def)

lemma Rectangle_call_positional:
  "Rectangle_call [l, w] [] s =
     (Inr (next_addr s),
      s\<lparr>next_addr := Suc (next_addr s),
        rects := (rects s)(next_addr s \<mapsto> \<lparr>length_attr = l, width = w\<rparr>)\<rparr>)"
  by (simp add: Rectangle_call_def bind_args_def bind_param_def Rectangle_init_def Let_def)

lemma py_next_rects: "rects (snd (py_next it s)) = rects s"
  by (simp add: py_next_def split: option.splits gen_pc.splits)

lemma bind_param_missing:
  "\<not> supplied i name args kwargs \<Longrightarrow> bind_param i name args kwargs = Inl TypeError"
proof -
  assume "\<not> supplied i name args kwargs"
  then have "\<not> i < length args" and "name \<notin> fst ` set kwargs"
    by (simp_all add: supplied_def)
  then have "map_of kwargs name = None"
    by (simp add: map_of_eq_None_iff)
  with \<open>\<not> i < length args\<close> show ?thesis
    by (simp add: bind_param_def)
qed

lemma bind_param_exc: "bind_param i name args kwargs = Inl e \<Longrightarrow> e = TypeError"
  by (simp add: bind_param_def split: if_splits option.splits)

lemma bind_args_missing:
  assumes "\<not> supplied 0 ''length'' args kwargs \<or> \<not> supplied 1 ''width'' args kwargs"
  shows "bind_args args kwargs = Inl TypeError"
proof (cases "supplied 0 ''length'' args kwargs")
  case False
  then show ?thesis
    by (simp add: bind_args_def bind_param_missing)
next
  case True
  with assms have "bind_param 1 ''width'' args kwargs = Inl TypeError"
    by (simp add: bind_param_missing)
  then show ?thesis
    by (auto simp: bind_args_def split: sum.splits dest: bind_param_exc)
qed

lemma state_with_eq:
  "state_with l w =
     \<lparr>rects = [0 \<mapsto> \<lparr>length_attr = l, width = w\<rparr>], gens = Map.empty,
      next_addr = Suc 0, stdout = []\<rparr>"
  by (simp add: state_with_def Rectangle_call_positional init_state_def)

lemma two_rects_eq:
  "two_rects l w =
     \<lparr>rects = [0 \<mapsto> \<lparr>length_attr = l, width = w\<rparr>, Suc 0 \<mapsto> \<lparr>length_attr = l, width = w\<rparr>],
      gens = Map.empty, next_addr = Suc (Suc 0), stdout = []\<rparr>"
  by (simp add: two_rects_def state_with_eq Rectangle_call_def bind_args_def bind_param_def
        Rectangle_init_def Let_def)

lemma py_print_rects: "rects (py_print txt s) = rects s"
  by (simp add: py_print_def)

lemma main_loop_rects: "rects (snd (main_loop it s)) = rects s"
proof (induction it s rule: main_loop.induct)
  case (1 it s)
  show ?case
  proof (cases "py_next it s")
    case (Pair res s')
    have frame: "rects s' = rects s"
      using py_next_rects [of it s] Pair by simp
    show ?thesis
    proof (cases res)
      case (Inl e)
      with Pair frame show ?thesis
        by (subst main_loop.simps) simp
    next
      case (Inr x)
      with Pair have "rects (snd (main_loop it (py_print (repr_dict x) s'))) =
                      rects (py_print (repr_dict x) s')"
        by (intro "1.IH") simp_all
      with Pair Inr frame show ?thesis
        by (subst main_loop.simps) (simp add: py_print_rects)
    qed
  qed
qed

subsection \<open>Construction followed by iteration\<close>

text \<open>
  Claim C1. For all integers \<open>l\<close> and \<open>w\<close> and from any program state, constructing
  \<^verbatim>\<open>Rectangle(length=l, width=w)\<close> (or, by position, \<^verbatim>\<open>Rectangle(l, w)\<close>) succeeds, and
  iterating the new instance to the end yields exactly the two-element sequence
  \<^verbatim>\<open>[{"length": l}, {"width": w}]\<close>: the mapping of \<^verbatim>\<open>length\<close> first, each mapping
  holding the constructed value.
\<close>

theorem iterate_constructed_rectangle:
  fixes l w :: int
  shows "(\<exists>a s1 s2.
            Rectangle_call [] [(''length'', l), (''width'', w)] s = (Inr a, s1) \<and>
            py_list a s1 = (Inr [[(''length'', l)], [(''width'', w)]], s2)) \<and>
         (\<exists>a s1 s2.
            Rectangle_call [l, w] [] s = (Inr a, s1) \<and>
            py_list a s1 = (Inr [[(''length'', l)], [(''width'', w)]], s2))"
  by (simp add: Rectangle_call_keywords Rectangle_call_positional py_list_inst)

text \<open>
  Claim C2. For every instance, two iterations requested one after the other, with no
  assignment to a field in between, yield the same sequence. Moreover each request
  makes a new generator that starts from the first element and is independent of the
  others: when a first generator \<open>g1\<close> has produced one element and a second generator
  \<open>g2\<close> is then requested and consumed to its end, \<open>g2\<close> is another object than \<open>g1\<close>
  and yields the whole sequence, and \<open>g1\<close> goes on with its own second element.
\<close>

theorem iteration_restartable:
  assumes "rects s a = Some r"
  shows "(\<exists>xs s1 s2.
            py_list a s = (Inr xs, s1) \<and> py_list a s1 = (Inr xs, s2) \<and>
            xs = [[(''length'', length_attr r)], [(''width'', width r)]]) \<and>
         (\<exists>g1 s1 x s2 g2 s3 ys s4 y s5.
            py_iter a s = (Inr g1, s1) \<and> py_next g1 s1 = (Inr x, s2) \<and>
            py_iter a s2 = (Inr g2, s3) \<and> g2 \<noteq> g1 \<and>
            list_iter g2 s3 = (Inr ys, s4) \<and>
            ys = [[(''length'', length_attr r)], [(''width'', width r)]] \<and>
            py_next g1 s4 = (Inr y, s5) \<and> [x, y] = ys)"
proof
  show "\<exists>xs s1 s2.
          py_list a s = (Inr xs, s1) \<and> py_list a s1 = (Inr xs, s2) \<and>
          xs = [[(''length'', length_attr r)], [(''width'', width r)]]"
    by (simp add: py_list_inst [OF assms] py_list_inst [where r = r] assms)
next
  let ?g = "\<lparr>self = a, pc = Created\<rparr>"
  let ?g1 = "next_addr s" and ?g2 = "Suc (next_addr s)"
  let ?s1 = "s\<lparr>gens := (gens s)(?g1 \<mapsto> ?g), next_addr := ?g2\<rparr>"
  let ?s2 = "set_pc ?g1 ?g At_yield_length ?s1"
  let ?s3 = "?s2\<lparr>gens := (gens ?s2)(?g2 \<mapsto> ?g), next_addr := Suc ?g2\<rparr>"
  let ?s4 = "set_pc ?g2 ?g Finished ?s3"
  let ?ys = "[[(''length'', length_attr r)], [(''width'', width r)]]"
  have 1: "py_iter a s = (Inr ?g1, ?s1)"
    by (rule py_iter_inst [OF assms])
  have 2: "py_next ?g1 ?s1 = (Inr [(''length'', length_attr r)], ?s2)"
    by (rule py_next_Created) (simp_all add: assms)
  have 3: "py_iter a ?s2 = (Inr ?g2, ?s3)"
    using py_iter_inst [of ?s2 a r] by (simp add: assms)
  have 4: "list_iter ?g2 ?s3 = (Inr ?ys, ?s4)"
    by (rule list_iter_Created) (simp_all add: assms)
  have 5: "py_next ?g1 ?s4 =
             (Inr [(''width'', width r)],
              set_pc ?g1 (?g\<lparr>pc := At_yield_length\<rparr>) At_yield_width ?s4)"
    by (rule py_next_At_yield_length) (simp_all add: assms)
  from 1 2 3 4 5 show "\<exists>g1 s1 x s2 g2 s3 ys s4 y s5.
           py_iter a s = (Inr g1, s1) \<and> py_next g1 s1 = (Inr x, s2) \<and>
           py_iter a s2 = (Inr g2, s3) \<and> g2 \<noteq> g1 \<and>
           list_iter g2 s3 = (Inr ys, s4) \<and>
           ys = [[(''length'', length_attr r)], [(''width'', width r)]] \<and>
           py_next g1 s4 = (Inr y, s5) \<and> [x, y] = ys"
    by simp
qed

theorem iteration_restartable_witness:
  "rects (state_with (10 :: int) 5) 0 = Some \<lparr>length_attr = 10, width = 5\<rparr> \<and>
   (\<exists>xs s1 s2.
      py_list 0 (state_with (10 :: int) 5) = (Inr xs, s1) \<and> py_list 0 s1 = (Inr xs, s2) \<and>
      xs = [[(''length'', 10)], [(''width'', 5)]]) \<and>
   (\<exists>g1 s1 x s2 g2 s3 ys s4 y s5.
      py_iter 0 (state_with (10 :: int) 5) = (Inr g1, s1) \<and> py_next g1 s1 = (Inr x, s2) \<and>
      py_iter 0 s2 = (Inr g2, s3) \<and> g2 \<noteq> g1 \<and>
      list_iter g2 s3 = (Inr ys, s4) \<and>
      ys = [[(''length'', 10)], [(''width'', 5)]] \<and>
      py_next g1 s4 = (Inr y, s5) \<and> [x, y] = ys)"
proof -
  have h: "rects (state_with (10 :: int) 5) 0 = Some \<lparr>length_attr = 10, width = 5\<rparr>"
    by (simp add: state_with_eq)
  show ?thesis
    using h iteration_restartable [OF h] by simp
qed

text \<open>
  Claim C3. For every instance, whatever values it stores, the labels of the elements
  of the iteration sequence are \<^verbatim>\<open>length\<close> and then \<^verbatim>\<open>width\<close>: the mapping labelled
  \<^verbatim>\<open>length\<close> comes before the mapping labelled \<^verbatim>\<open>width\<close>.
\<close>

theorem length_precedes_width:
  fixes s :: "'v pystate"
  assumes "rects s a = Some r"
  shows "\<exists>xs s'. py_list a s = (Inr xs, s') \<and> map (map fst) xs = [[''length''], [''width'']]"
  by (simp add: py_list_inst [OF assms])

theorem length_precedes_width_witness:
  "rects (state_with (- 2 :: int) 7) 0 = Some \<lparr>length_attr = - 2, width = 7\<rparr> \<and>
   (\<exists>xs s'. py_list 0 (state_with (- 2 :: int) 7) = (Inr xs, s') \<and>
      map (map fst) xs = [[''length''], [''width'']])"
proof -
  have h: "rects (state_with (- 2 :: int) 7) 0 = Some \<lparr>length_attr = - 2, width = 7\<rparr>"
    by (simp add: state_with_eq)
  show ?thesis
    using h length_precedes_width [OF h] by simp
qed

text \<open>
  Claim C4. Iteration does not change an instance: for every instance, after its
  iteration sequence has been consumed to the end, the store of instances is the one
  before the iteration began; in particular the instance holds the same \<^verbatim>\<open>length\<close> and
  \<^verbatim>\<open>width\<close>.
\<close>

theorem iteration_preserves_fields:
  assumes "rects s a = Some r"
  shows "\<exists>xs s'. py_list a s = (Inr xs, s') \<and> rects s' = rects s \<and> rects s' a = Some r"
  by (simp add: py_list_inst [OF assms] assms)

theorem iteration_preserves_fields_witness:
  "rects (state_with (3 :: int) 4) 0 = Some \<lparr>length_attr = 3, width = 4\<rparr> \<and>
   (\<exists>xs s'. py_list 0 (state_with (3 :: int) 4) = (Inr xs, s') \<and>
      rects s' = rects (state_with 3 4) \<and>
      rects s' 0 = Some \<lparr>length_attr = 3, width = 4\<rparr>)"
proof -
  have h: "rects (state_with (3 :: int) 4) 0 = Some \<lparr>length_attr = 3, width = 4\<rparr>"
    by (simp add: state_with_eq)
  show ?thesis
    using h iteration_preserves_fields [OF h] by simp
qed

text \<open>
  Claim C5. For every instance, with stored values of any type, iteration succeeds:
  consuming the iterator terminates, raises no exception and gives a sequence of
  exactly two elements.
\<close>

theorem iteration_total:
  fixes s :: "'v pystate"
  assumes "rects s a = Some r"
  shows "\<exists>xs s'. py_list a s = (Inr xs, s') \<and> length xs = 2"
  by (simp add: py_list_inst [OF assms])

theorem iteration_total_witness:
  "rects (state_with ''wide'' '''') 0 = Some \<lparr>length_attr = ''wide'', width = ''''\<rparr> \<and>
   (\<exists>xs s'. py_list 0 (state_with ''wide'' '''') = (Inr xs, s') \<and> length xs = 2)"
proof -
  have h: "rects (state_with ''wide'' '''') 0 = Some \<lparr>length_attr = ''wide'', width = ''''\<rparr>"
    by (simp add: state_with_eq)
  show ?thesis
    using h iteration_total [OF h] by simp
qed

text \<open>
  Claim C6. Zero and negative integers are accepted by construction: for all integers
  \<open>l \<le> 0\<close> and \<open>w \<le> 0\<close> and from any program state,
  \<^verbatim>\<open>Rectangle(length=l, width=w)\<close> succeeds and iterating the instance yields
  \<^verbatim>\<open>[{"length": l}, {"width": w}]\<close>. In particular \<^verbatim>\<open>Rectangle(length=0, width=-5)\<close>
  succeeds and iterates to \<^verbatim>\<open>[{"length": 0}, {"width": -5}]\<close>.
\<close>

theorem zero_and_negative_accepted:
  fixes l w :: int and s t :: "int pystate"
  assumes "l \<le> 0" and "w \<le> 0"
  shows "(\<exists>a s1 s2.
            Rectangle_call [] [(''length'', l), (''width'', w)] s = (Inr a, s1) \<and>
            py_list a s1 = (Inr [[(''length'', l)], [(''width'', w)]], s2)) \<and>
         (\<exists>a t1 t2.
            Rectangle_call [] [(''length'', 0), (''width'', - 5)] t = (Inr a, t1) \<and>
            py_list a t1 = (Inr [[(''length'', 0)], [(''width'', - 5)]], t2))"
  by (simp add: Rectangle_call_keywords py_list_inst)

theorem zero_and_negative_accepted_witness:
  "(- 1 :: int) \<le> 0 \<and> (0 :: int) \<le> 0 \<and>
   (\<exists>a s1 s2.
      Rectangle_call [] [(''length'', - 1), (''width'', 0)] (init_state :: int pystate) = (Inr a, s1) \<and>
      py_list a s1 = (Inr [[(''length'', - 1)], [(''width'', 0)]], s2)) \<and>
   (\<exists>a t1 t2.
      Rectangle_call [] [(''length'', 0), (''width'', - 5)] (init_state :: int pystate) = (Inr a, t1) \<and>
      py_list a t1 = (Inr [[(''length'', 0)], [(''width'', - 5)]], t2))"
proof -
  have hl: "(- 1 :: int) \<le> 0" and hw: "(0 :: int) \<le> 0"
    by simp_all
  show ?thesis
    using hl hw zero_and_negative_accepted [OF hl hw, of init_state init_state] by simp
qed

subsection \<open>The program\<close>

text \<open>
  Claim C7. Run as a program, the file constructs one Rectangle with \<^verbatim>\<open>length\<close> 10 and
  \<^verbatim>\<open>width\<close> 5 (the only instance in the final state), writes exactly the two lines
  \<^verbatim>\<open>{'length': 10}\<close> and \<^verbatim>\<open>{'width': 5}\<close>, in this order, and exits with code 0.
\<close>

theorem demonstration_output:
  "run_program = (0, ''{'length': 10}'' @ [CHR 0x0A] @ ''{'width': 5}'' @ [CHR 0x0A]) \<and>
   rects (snd (module_body ''__main__'' init_state)) = [0 \<mapsto> \<lparr>length_attr = 10, width = 5\<rparr>]"
proof
  show "run_program = (0, ''{'length': 10}'' @ [CHR 0x0A] @ ''{'width': 5}'' @ [CHR 0x0A])"
    by code_simp
  show "rects (snd (module_body ''__main__'' init_state)) =
          [0 \<mapsto> \<lparr>length_attr = 10, width = 5\<rparr>]"
    by (simp add: module_body_def Rectangle_call_keywords py_iter_inst main_loop_rects
          init_state_def del: main_loop.simps)
qed

subsection \<open>Failing construction\<close>

text \<open>
  Claim C8. A construction call that leaves out \<^verbatim>\<open>length\<close> or \<^verbatim>\<open>width\<close> (gives it
  neither by position nor by keyword) raises \<^verbatim>\<open>TypeError\<close>, the exception of a failed
  argument binding, at the call itself: the caller gets the exception and no
  reference to an instance, and the state is the one before the call.
\<close>

theorem missing_argument_raises:
  assumes "\<not> supplied 0 ''length'' args kwargs \<or> \<not> supplied 1 ''width'' args kwargs"
  shows "Rectangle_call args kwargs s = (Inl TypeError, s)"
  by (simp add: Rectangle_call_def bind_args_missing [OF assms])

theorem missing_argument_raises_witness:
  "\<not> supplied 1 ''width'' [] [(''length'', 3 :: int)] \<and>
   Rectangle_call [] [(''length'', 3 :: int)] init_state = (Inl TypeError, init_state)"
proof -
  have h: "\<not> supplied 1 ''width'' [] [(''length'', 3 :: int)]"
    by (simp add: supplied_def)
  show ?thesis
    using h missing_argument_raises [OF disjI2 [OF h], where s = init_state] by simp
qed

subsection \<open>Determinism and late binding\<close>

text \<open>
  Claim C9. Iteration is a function of the two field values: two instances, in the
  same or in different program states, with equal \<^verbatim>\<open>length\<close> and equal \<^verbatim>\<open>width\<close>
  produce equal iteration sequences.
\<close>

theorem iteration_deterministic:
  assumes "rects s a = Some r" and "rects t b = Some r'"
    and "length_attr r = length_attr r'" and "width r = width r'"
  shows "fst (py_list a s) = fst (py_list b t)"
  by (simp add: py_list_inst [OF assms(1)] py_list_inst [OF assms(2)] assms(3,4))

theorem iteration_deterministic_witness:
  "rects (two_rects (3 :: int) 4) 0 = Some \<lparr>length_attr = 3, width = 4\<rparr> \<and>
   rects (two_rects (3 :: int) 4) 1 = Some \<lparr>length_attr = 3, width = 4\<rparr> \<and>
   fst (py_list 0 (two_rects (3 :: int) 4)) = fst (py_list 1 (two_rects 3 4))"
proof -
  have h0: "rects (two_rects (3 :: int) 4) 0 = Some \<lparr>length_attr = 3, width = 4\<rparr>"
    by (simp add: two_rects_eq)
  have h1: "rects (two_rects (3 :: int) 4) 1 = Some \<lparr>length_attr = 3, width = 4\<rparr>"
    by (simp add: two_rects_eq)
  show ?thesis
    using h0 h1 iteration_deterministic [OF h0 h1] by simp
qed

text \<open>
  Claim C10. Each field is read only when its element is produced. For every
  instance: when an iterator has produced its first element \<^verbatim>\<open>{"length": ...}\<close> and
  \<^verbatim>\<open>width\<close> is then assigned the value \<open>v\<close>, the second element is \<^verbatim>\<open>{"width": v}\<close>,
  whatever \<^verbatim>\<open>width\<close> was when the iteration began. Likewise, when \<^verbatim>\<open>length\<close> is
  assigned the value \<open>u\<close> after the iterator was requested and before its first
  element is requested, the first element is \<^verbatim>\<open>{"length": u}\<close>; a later assignment
  of \<open>v\<close> to \<^verbatim>\<open>width\<close> is again seen in the second element.
\<close>

theorem width_read_at_second_resumption:
  assumes "rects s a = Some r"
  shows "(\<exists>it s1 s2 s3 s4.
            py_iter a s = (Inr it, s1) \<and>
            py_next it s1 = (Inr [(''length'', length_attr r)], s2) \<and>
            set_width a v s2 = (Inr (), s3) \<and>
            py_next it s3 = (Inr [(''width'', v)], s4)) \<and>
         (\<exists>it s1 s2 s3 s4 s5.
            py_iter a s = (Inr it, s1) \<and>
            set_length a u s1 = (Inr (), s2) \<and>
            py_next it s2 = (Inr [(''length'', u)], s3) \<and>
            set_width a v s3 = (Inr (), s4) \<and>
            py_next it s4 = (Inr [(''width'', v)], s5))"
proof
  let ?it = "next_addr s" and ?g = "\<lparr>self = a, pc = Created\<rparr>"
  let ?s1 = "s\<lparr>gens := (gens s)(?it \<mapsto> ?g), next_addr := Suc ?it\<rparr>"
  let ?s2 = "set_pc ?it ?g At_yield_length ?s1"
  let ?s3 = "?s2\<lparr>rects := (rects ?s2)(a \<mapsto> r\<lparr>width := v\<rparr>)\<rparr>"
  have 1: "py_iter a s = (Inr ?it, ?s1)"
    by (rule py_iter_inst [OF assms])
  have 2: "py_next ?it ?s1 = (Inr [(''length'', length_attr r)], ?s2)"
    by (rule py_next_Created) (simp_all add: assms)
  have 3: "set_width a v ?s2 = (Inr (), ?s3)"
    by (simp add: set_width_def assms)
  have 4: "py_next ?it ?s3 =
             (Inr [(''width'', width (r\<lparr>width := v\<rparr>))],
              set_pc ?it (?g\<lparr>pc := At_yield_length\<rparr>) At_yield_width ?s3)"
    by (rule py_next_At_yield_length) simp_all
  from 1 2 3 4 show "\<exists>it s1 s2 s3 s4.
            py_iter a s = (Inr it, s1) \<and>
            py_next it s1 = (Inr [(''length'', length_attr r)], s2) \<and>
            set_width a v s2 = (Inr (), s3) \<and>
            py_next it s3 = (Inr [(''width'', v)], s4)"
    by simp
next
  let ?it = "next_addr s" and ?g = "\<lparr>self = a, pc = Created\<rparr>"
  let ?r2 = "r\<lparr>length_attr := u\<rparr>"
  let ?s1 = "s\<lparr>gens := (gens s)(?it \<mapsto> ?g), next_addr := Suc ?it\<rparr>"
  let ?s2 = "?s1\<lparr>rects := (rects ?s1)(a \<mapsto> ?r2)\<rparr>"
  let ?s3 = "set_pc ?it ?g At_yield_length ?s2"
  let ?s4 = "?s3\<lparr>rects := (rects ?s3)(a \<mapsto> ?r2\<lparr>width := v\<rparr>)\<rparr>"
  have 1: "py_iter a s = (Inr ?it, ?s1)"
    by (rule py_iter_inst [OF assms])
  have 2: "set_length a u ?s1 = (Inr (), ?s2)"
    by (simp add: set_length_def assms)
  have 3: "py_next ?it ?s2 = (Inr [(''length'', length_attr ?r2)], ?s3)"
    by (rule py_next_Created) simp_all
  have 4: "set_width a v ?s3 = (Inr (), ?s4)"
    by (simp add: set_width_def)
  have 5: "py_next ?it ?s4 =
             (Inr [(''width'', width (?r2\<lparr>width := v\<rparr>))],
              set_pc ?it (?g\<lparr>pc := At_yield_length\<rparr>) At_yield_width ?s4)"
    by (rule py_next_At_yield_length) simp_all
  from 1 2 3 4 5 show "\<exists>it s1 s2 s3 s4 s5.
            py_iter a s = (Inr it, s1) \<and>
            set_length a u s1 = (Inr (), s2) \<and>
            py_next it s2 = (Inr [(''length'', u)], s3) \<and>
            set_width a v s3 = (Inr (), s4) \<and>
            py_next it s4 = (Inr [(''width'', v)], s5)"
    by simp
qed

theorem width_read_at_second_resumption_witness:
  "rects (state_with (10 :: int) 5) 0 = Some \<lparr>length_attr = 10, width = 5\<rparr> \<and>
   (\<exists>it s1 s2 s3 s4.
      py_iter 0 (state_with (10 :: int) 5) = (Inr it, s1) \<and>
      py_next it s1 = (Inr [(''length'', 10)], s2) \<and>
      set_width 0 99 s2 = (Inr (), s3) \<and>
      py_next it s3 = (Inr [(''width'', 99)], s4)) \<and>
   (\<exists>it s1 s2 s3 s4 s5.
      py_iter 0 (state_with (10 :: int) 5) = (Inr it, s1) \<and>
      set_length 0 77 s1 = (Inr (), s2) \<and>
      py_next it s2 = (Inr [(''length'', 77)], s3) \<and>
      set_width 0 99 s3 = (Inr (), s4) \<and>
      py_next it s4 = (Inr [(''width'', 99)], s5))"
proof -
  have h: "rects (state_with (10 :: int) 5) 0 = Some \<lparr>length_attr = 10, width = 5\<rparr>"
    by (simp add: state_with_eq)
  show ?thesis
    using h width_read_at_second_resumption [OF h, of 99 77] by simp
qed

end
